theory Spec2Isabelle
  imports Main "HOL-Library.Word"
begin

section \<open>QVariant and QVariantMap\<close>

text \<open>
  The wrapper keeps all of its data in Qt variant maps. A \<open>QVariantMap\<close> is a
  \<open>QMap<QString, QVariant>\<close>: at most one value per key. A \<open>QVariant\<close> is invalid
  (default constructed), or holds a string, an integer, a boolean, a map or a list.
  Floating point variants are not modelled.
\<close>

datatype qvariant =
    Invalid
  | QString string
  | QLongLong "64 word"
  | QBool bool
  | QVariantMap "string \<Rightarrow> qvariant option"
  | QVariantList "qvariant list"

type_synonym qvariantmap = "string \<Rightarrow> qvariant option"

text \<open>\<open>QMap::value(key)\<close>: the stored value, a default constructed one for a missing key.\<close>

definition qvalue :: "qvariantmap \<Rightarrow> string \<Rightarrow> qvariant" where
  "qvalue m k = (case m k of None \<Rightarrow> Invalid | Some v \<Rightarrow> v)"

text \<open>\<open>QMap::insert(key, value)\<close>: the value replaces the one stored for the key, if any.\<close>

definition qinsert :: "string \<Rightarrow> qvariant \<Rightarrow> qvariantmap \<Rightarrow> qvariantmap" where
  "qinsert k v m = m(k \<mapsto> v)"

text \<open>\<open>QString::number\<close> of an integer, base ten.\<close>

definition digit_char :: "nat \<Rightarrow> char" where
  "digit_char d = ''0123456789'' ! d"

function decimal :: "nat \<Rightarrow> string" where
  "decimal n = (if n < 10 then [digit_char n] else decimal (n div 10) @ [digit_char (n mod 10)])"
  by pat_completeness auto
termination
  by (relation "measure id") auto

declare decimal.simps [simp del]

definition number :: "int \<Rightarrow> string" where
  "number i = (if i < 0 then CHR ''-'' # decimal (nat (- i)) else decimal (nat i))"

text \<open>
  \<open>QVariant::toString()\<close>: the string of a string, number or boolean, the empty string
  for an invalid variant, a map or a list.
\<close>

fun toString :: "qvariant \<Rightarrow> string" where
  "toString (QString s) = s"
| "toString (QLongLong n) = number (sint n)"
| "toString (QBool b) = (if b then ''true'' else ''false'')"
| "toString Invalid = []"
| "toString (QVariantMap m) = []"
| "toString (QVariantList l) = []"

text \<open>\<open>QVariant::toMap()\<close>: the map of a map variant, the empty map otherwise.\<close>

fun toMap :: "qvariant \<Rightarrow> qvariantmap" where
  "toMap (QVariantMap m) = m"
| "toMap v = Map.empty"

section \<open>The wrapper's state\<close>

datatype AuthorizationState =
    Closed
  | Closing
  | LoggingOut
  | AuthorizationReady
  | WaitCode
  | WaitEncryptionKey
  | WaitOtherDeviceConfirmation
  | WaitPassword
  | WaitPhoneNumber
  | WaitRegistration
  | WaitTdlibParameters

datatype ChatMemberStatus =
    ChatMemberStatusMember
  | ChatMemberStatusLeft
  | ChatMemberStatusCreator
  | ChatMemberStatusAdministrator
  | ChatMemberStatusRestricted
  | ChatMemberStatusBanned
  | ChatMemberStatusUnknown

text \<open>A \<open>TDLibWrapper::Group\<close> object: its id and the metadata of the last update.\<close>

record Group =
  groupId :: "64 word"
  groupInfo :: qvariantmap

text \<open>The signals the modelled slots emit, with their arguments.\<close>

datatype signal =
    authorizationStateChanged AuthorizationState
  | optionUpdated string qvariant
  | ownUserIdFound string
  | userUpdated string qvariantmap
  | newChatDiscovered string qvariantmap
  | unreadMessageCountUpdated qvariantmap
  | unreadChatCountUpdated qvariantmap
  | basicGroupUpdated "64 word"
  | superGroupUpdated "64 word"

text \<open>
  The members of \<open>TDLibWrapper\<close> that the modelled slots read or write.
  \<open>basicGroups\<close> and \<open>superGroups\<close> are \<open>QHash<qlonglong, Group*>\<close>: they hold pointers,
  a null pointer standing for a missing key. The \<open>Group\<close> objects live in \<open>groupHeap\<close>,
  a pointer being an index into it; \<open>new Group\<close> appends. \<open>emitted\<close> is the trace of
  the signals emitted so far, \<open>sent\<close> the requests handed to \<open>sendRequest\<close>, both in
  order.
\<close>

record TDLibWrapper =
  authorizationState :: AuthorizationState
  options :: qvariantmap
  userInformation :: qvariantmap
  allUsers :: qvariantmap
  chats :: qvariantmap
  unreadMessageInformation :: qvariantmap
  unreadChatInformation :: qvariantmap
  groupHeap :: "Group list"
  basicGroups :: "64 word \<Rightarrow> nat option"
  superGroups :: "64 word \<Rightarrow> nat option"
  emitted :: "signal list"
  sent :: "qvariantmap list"

text \<open>
  The wrapper right after its constructor has connected the receiver's signals: every
  container is empty. The constructor does not initialise \<open>authorizationState\<close>, so
  its first value is a parameter. The two requests the constructor sends are left out of
  \<open>sent\<close>.
\<close>

definition newTDLibWrapper :: "AuthorizationState \<Rightarrow> TDLibWrapper" where
  "newTDLibWrapper a =
     \<lparr> authorizationState = a, options = Map.empty, userInformation = Map.empty,
       allUsers = Map.empty, chats = Map.empty, unreadMessageInformation = Map.empty,
       unreadChatInformation = Map.empty, groupHeap = [], basicGroups = Map.empty,
       superGroups = Map.empty, emitted = [], sent = [] \<rparr>"

definition emit :: "signal \<Rightarrow> TDLibWrapper \<Rightarrow> TDLibWrapper" where
  "emit sig w = w\<lparr>emitted := emitted w @ [sig]\<rparr>"

definition sendRequest :: "qvariantmap \<Rightarrow> TDLibWrapper \<Rightarrow> TDLibWrapper" where
  "sendRequest requestObject w = w\<lparr>sent := sent w @ [requestObject]\<rparr>"

section \<open>Group registry\<close>

text \<open>
  \<open>TDLibWrapper::getGroup\<close>: the null pointer for id 0, else the pointer stored in
  \<open>superGroups\<close> when it is not null, else the one stored in \<open>basicGroups\<close>.
\<close>

definition getGroup :: "TDLibWrapper \<Rightarrow> 64 word \<Rightarrow> nat option" where
  "getGroup w gid =
     (if gid \<noteq> 0
      then (case superGroups w gid of Some g \<Rightarrow> Some g | None \<Rightarrow> basicGroups w gid)
      else None)"

text \<open>
  \<open>TDLibWrapper::updateGroup\<close>, on the heap and the hash the caller passes by pointer:
  a missing key gets a new \<open>Group\<close>, which is stored in the hash; the object's
  \<open>groupInfo\<close> is then overwritten. The result is the pointer with the new heap and
  hash. A stored pointer that does not point into the heap cannot be written through:
  the result is \<open>None\<close> (no reachable state holds such a pointer).
\<close>

definition updateGroup ::
  "64 word \<Rightarrow> qvariantmap \<Rightarrow> Group list \<Rightarrow> (64 word \<Rightarrow> nat option) \<Rightarrow>
     (nat \<times> Group list \<times> (64 word \<Rightarrow> nat option)) option" where
  "updateGroup gid info heap groups =
     (case groups gid of
        None \<Rightarrow>
          Some (length heap, heap @ [\<lparr>groupId = gid, groupInfo = info\<rparr>],
                groups(gid \<mapsto> length heap))
      | Some g \<Rightarrow>
          (if g < length heap
           then Some (g, heap[g := (heap ! g)\<lparr>groupInfo := info\<rparr>], groups)
           else None))"

definition handleBasicGroupUpdated ::
  "64 word \<Rightarrow> qvariantmap \<Rightarrow> TDLibWrapper \<Rightarrow> TDLibWrapper option" where
  "handleBasicGroupUpdated gid groupInformation w =
     (case updateGroup gid groupInformation (groupHeap w) (basicGroups w) of
        None \<Rightarrow> None
      | Some (g, heap, groups) \<Rightarrow>
          Some (emit (basicGroupUpdated (groupId (heap ! g)))
                  (w\<lparr>groupHeap := heap, basicGroups := groups\<rparr>)))"

definition handleSuperGroupUpdated ::
  "64 word \<Rightarrow> qvariantmap \<Rightarrow> TDLibWrapper \<Rightarrow> TDLibWrapper option" where
  "handleSuperGroupUpdated gid groupInformation w =
     (case updateGroup gid groupInformation (groupHeap w) (superGroups w) of
        None \<Rightarrow> None
      | Some (g, heap, groups) \<Rightarrow>
          Some (emit (superGroupUpdated (groupId (heap ! g)))
                  (w\<lparr>groupHeap := heap, superGroups := groups\<rparr>)))"

text \<open>\<open>TDLibWrapper::chatMemberStatusFromString\<close>, in the order of the source.\<close>

definition chatMemberStatusFromString :: "string \<Rightarrow> ChatMemberStatus" where
  "chatMemberStatusFromString status =
     (if status = ''chatMemberStatusMember'' then ChatMemberStatusMember
      else if status = ''chatMemberStatusLeft'' then ChatMemberStatusLeft
      else if status = ''chatMemberStatusCreator'' then ChatMemberStatusCreator
      else if status = ''chatMemberStatusAdministrator'' then ChatMemberStatusAdministrator
      else if status = ''chatMemberStatusRestricted'' then ChatMemberStatusRestricted
      else if status = ''chatMemberStatusBanned'' then ChatMemberStatusBanned
      else ChatMemberStatusUnknown)"

text \<open>\<open>TDLibWrapper::Group::chatMemberStatus\<close>, with its local \<open>statusType\<close>.\<close>

definition statusType :: "Group \<Rightarrow> string" where
  "statusType g = toString (qvalue (toMap (qvalue (groupInfo g) ''status'')) ''@type'')"

definition chatMemberStatus :: "Group \<Rightarrow> ChatMemberStatus" where
  "chatMemberStatus g =
     (if statusType g = [] then ChatMemberStatusUnknown
      else chatMemberStatusFromString (statusType g))"

section \<open>State store\<close>

text \<open>
  \<open>TDLibWrapper::handleOptionUpdated\<close>: the value is stored, \<open>optionUpdated\<close> is
  emitted, and for the name \<open>my_id\<close> also \<open>ownUserIdFound\<close>.
\<close>

definition handleOptionUpdated :: "string \<Rightarrow> qvariant \<Rightarrow> TDLibWrapper \<Rightarrow> TDLibWrapper" where
  "handleOptionUpdated optionName optionValue w =
     (let w1 = w\<lparr>options := qinsert optionName optionValue (options w)\<rparr>;
          w2 = emit (optionUpdated optionName optionValue) w1
      in if optionName = ''my_id'' then emit (ownUserIdFound (toString optionValue)) w2
         else w2)"

text \<open>\<open>TDLibWrapper::handleUserUpdated\<close>.\<close>

definition handleUserUpdated :: "qvariantmap \<Rightarrow> TDLibWrapper \<Rightarrow> TDLibWrapper" where
  "handleUserUpdated info w =
     (let updatedUserId = toString (qvalue info ''id'');
          w1 = (if updatedUserId = toString (qvalue (options w) ''my_id'')
                then w\<lparr>userInformation := info\<rparr> else w);
          w2 = w1\<lparr>allUsers := qinsert updatedUserId (QVariantMap info) (allUsers w1)\<rparr>
      in emit (userUpdated updatedUserId info) w2)"

text \<open>\<open>TDLibWrapper::handleUserStatusUpdated\<close>.\<close>

definition handleUserStatusUpdated ::
  "string \<Rightarrow> qvariantmap \<Rightarrow> TDLibWrapper \<Rightarrow> TDLibWrapper" where
  "handleUserStatusUpdated userId userStatusInformation w =
     (let w1 = (if userId = toString (qvalue (options w) ''my_id'')
                then w\<lparr>userInformation :=
                          qinsert ''status'' (QVariantMap userStatusInformation)
                            (userInformation w)\<rparr>
                else w);
          updatedUserInformation =
            qinsert ''status'' (QVariantMap userStatusInformation)
              (toMap (qvalue (allUsers w1) userId));
          w2 = w1\<lparr>allUsers := qinsert userId (QVariantMap updatedUserInformation) (allUsers w1)\<rparr>
      in emit (userUpdated userId updatedUserInformation) w2)"

text \<open>\<open>TDLibWrapper::handleNewChatDiscovered\<close>.\<close>

definition handleNewChatDiscovered :: "qvariantmap \<Rightarrow> TDLibWrapper \<Rightarrow> TDLibWrapper" where
  "handleNewChatDiscovered chatInformation w =
     (let chatId = toString (qvalue chatInformation ''id'');
          w1 = w\<lparr>chats := qinsert chatId (QVariantMap chatInformation) (chats w)\<rparr>
      in emit (newChatDiscovered chatId chatInformation) w1)"

text \<open>
  \<open>TDLibWrapper::handleUnreadMessageCountUpdated\<close> and
  \<open>TDLibWrapper::handleUnreadChatCountUpdated\<close>.
\<close>

definition handleUnreadMessageCountUpdated :: "qvariantmap \<Rightarrow> TDLibWrapper \<Rightarrow> TDLibWrapper" where
  "handleUnreadMessageCountUpdated messageCountInformation w =
     (if toString (qvalue messageCountInformation ''chat_list_type'') = ''chatListMain''
      then emit (unreadMessageCountUpdated messageCountInformation)
             (w\<lparr>unreadMessageInformation := messageCountInformation\<rparr>)
      else w)"

definition handleUnreadChatCountUpdated :: "qvariantmap \<Rightarrow> TDLibWrapper \<Rightarrow> TDLibWrapper" where
  "handleUnreadChatCountUpdated chatCountInformation w =
     (if toString (qvalue chatCountInformation ''chat_list_type'') = ''chatListMain''
      then emit (unreadChatCountUpdated chatCountInformation)
             (w\<lparr>unreadChatInformation := chatCountInformation\<rparr>)
      else w)"

text \<open>The getters. \<open>getUserInformation()\<close> with no argument reads the own-user slot.\<close>

definition getUserInformation :: "TDLibWrapper \<Rightarrow> qvariantmap" where
  "getUserInformation w = userInformation w"

definition getUserInformationOf :: "TDLibWrapper \<Rightarrow> string \<Rightarrow> qvariantmap" where
  "getUserInformationOf w userId = toMap (qvalue (allUsers w) userId)"

definition getUnreadMessageInformation :: "TDLibWrapper \<Rightarrow> qvariantmap" where
  "getUnreadMessageInformation w = unreadMessageInformation w"

definition getUnreadChatInformation :: "TDLibWrapper \<Rightarrow> qvariantmap" where
  "getUnreadChatInformation w = unreadChatInformation w"

definition getChat :: "TDLibWrapper \<Rightarrow> string \<Rightarrow> qvariantmap" where
  "getChat w chatId = toMap (qvalue (chats w) chatId)"

section \<open>Authorization state\<close>

text \<open>
  What \<open>setInitialParameters\<close> reads from outside the wrapper: the two macros of
  \<open>tdlibsecrets.h\<close>, the application data directory, the locale's name, the device
  model of \<open>/etc/hw-release\<close> and the product name.
\<close>

record Environment =
  TDLIB_API_ID :: qvariant
  TDLIB_API_HASH :: qvariant
  appDataLocation :: string
  systemLocaleName :: string
  deviceModel :: string
  prettyProductName :: string

definition setInitialParameters :: "Environment \<Rightarrow> TDLibWrapper \<Rightarrow> TDLibWrapper" where
  "setInitialParameters env w =
     (let initialParameters =
            [''api_id'' \<mapsto> TDLIB_API_ID env,
             ''api_hash'' \<mapsto> TDLIB_API_HASH env,
             ''database_directory'' \<mapsto> QString (appDataLocation env @ ''/tdlib''),
             ''use_file_database'' \<mapsto> QBool True,
             ''use_chat_info_database'' \<mapsto> QBool True,
             ''use_message_database'' \<mapsto> QBool True,
             ''use_secret_chats'' \<mapsto> QBool False,
             ''system_language_code'' \<mapsto> QString (systemLocaleName env),
             ''device_model'' \<mapsto> QString (deviceModel env),
             ''system_version'' \<mapsto> QString (prettyProductName env),
             ''application_version'' \<mapsto> QString ''0.2'']
      in sendRequest [''@type'' \<mapsto> QString ''setTdlibParameters'',
                      ''parameters'' \<mapsto> QVariantMap initialParameters] w)"

definition setEncryptionKey :: "TDLibWrapper \<Rightarrow> TDLibWrapper" where
  "setEncryptionKey w =
     sendRequest [''@type'' \<mapsto> QString ''checkDatabaseEncryptionKey'',
                  ''encryption_key'' \<mapsto> QString []] w"

text \<open>
  \<open>TDLibWrapper::handleAuthorizationStateChanged\<close>: eleven independent tests, one
  after the other as in the source, then the signal with the stored state.
\<close>

definition handleAuthorizationStateChanged ::
  "Environment \<Rightarrow> string \<Rightarrow> TDLibWrapper \<Rightarrow> TDLibWrapper" where
  "handleAuthorizationStateChanged env a w =
     (let w1 = (if a = ''authorizationStateClosed''
                then w\<lparr>authorizationState := Closed\<rparr> else w);
          w2 = (if a = ''authorizationStateClosing''
                then w1\<lparr>authorizationState := Closing\<rparr> else w1);
          w3 = (if a = ''authorizationStateLoggingOut''
                then w2\<lparr>authorizationState := LoggingOut\<rparr> else w2);
          w4 = (if a = ''authorizationStateReady''
                then w3\<lparr>authorizationState := AuthorizationReady\<rparr> else w3);
          w5 = (if a = ''authorizationStateWaitCode''
                then w4\<lparr>authorizationState := WaitCode\<rparr> else w4);
          w6 = (if a = ''authorizationStateWaitEncryptionKey''
                then (setEncryptionKey w5)\<lparr>authorizationState := WaitEncryptionKey\<rparr> else w5);
          w7 = (if a = ''authorizationStateWaitOtherDeviceConfirmation''
                then w6\<lparr>authorizationState := WaitOtherDeviceConfirmation\<rparr> else w6);
          w8 = (if a = ''authorizationStateWaitPassword''
                then w7\<lparr>authorizationState := WaitPassword\<rparr> else w7);
          w9 = (if a = ''authorizationStateWaitPhoneNumber''
                then w8\<lparr>authorizationState := WaitPhoneNumber\<rparr> else w8);
          w10 = (if a = ''authorizationStateWaitRegistration''
                 then w9\<lparr>authorizationState := WaitRegistration\<rparr> else w9);
          w11 = (if a = ''authorizationStateWaitTdlibParameters''
                 then (setInitialParameters env w10)\<lparr>authorizationState := WaitTdlibParameters\<rparr>
                 else w10)
      in emit (authorizationStateChanged (authorizationState w11)) w11)"

section \<open>Update streams\<close>

text \<open>
  The receiver's signals are connected to the slots in the constructor; a stream of
  updates is delivered to the slots one after the other.
\<close>

datatype userEvent =
    UserUpdate qvariantmap
  | UserStatusUpdate string qvariantmap

fun deliverUser :: "userEvent \<Rightarrow> TDLibWrapper \<Rightarrow> TDLibWrapper" where
  "deliverUser (UserUpdate info) w = handleUserUpdated info w"
| "deliverUser (UserStatusUpdate userId status) w = handleUserStatusUpdated userId status w"

definition deliverUsers :: "userEvent list \<Rightarrow> TDLibWrapper \<Rightarrow> TDLibWrapper" where
  "deliverUsers evs w = fold deliverUser evs w"

definition deliverOptions :: "(string \<times> qvariant) list \<Rightarrow> TDLibWrapper \<Rightarrow> TDLibWrapper" where
  "deliverOptions upds w = fold (\<lambda>(n, v). handleOptionUpdated n v) upds w"

text \<open>How often \<open>ownUserIdFound\<close> stands in a trace of signals.\<close>

fun ownUserIdFoundCount :: "signal list \<Rightarrow> nat" where
  "ownUserIdFoundCount [] = 0"
| "ownUserIdFoundCount (ownUserIdFound v # sigs) = Suc (ownUserIdFoundCount sigs)"
| "ownUserIdFoundCount (sig # sigs) = ownUserIdFoundCount sigs"

section \<open>Properties\<close>

subsection \<open>Auxiliary facts\<close>

lemma ownUserIdFoundCount_append:
  "ownUserIdFoundCount (xs @ ys) = ownUserIdFoundCount xs + ownUserIdFoundCount ys"
  by (induction xs rule: ownUserIdFoundCount.induct) simp_all

lemma emitted_handleOptionUpdated:
  "emitted (handleOptionUpdated n v w) =
     emitted w @ optionUpdated n v # (if n = ''my_id'' then [ownUserIdFound (toString v)] else [])"
  by (simp add: handleOptionUpdated_def emit_def Let_def)

lemma ownUserIdFoundCount_fold:
  "ownUserIdFoundCount (emitted (fold (\<lambda>(n, v). handleOptionUpdated n v) upds w)) =
     ownUserIdFoundCount (emitted w) + length (filter (\<lambda>(n, v). n = ''my_id'') upds)"
  by (induction upds arbitrary: w)
     (auto simp: emitted_handleOptionUpdated ownUserIdFoundCount_append)

lemma getUserInformationOf_status:
  "getUserInformationOf (handleUserStatusUpdated uid st w) uid' =
     (if uid' = uid then (getUserInformationOf w uid)(''status'' \<mapsto> QVariantMap st)
      else getUserInformationOf w uid')"
  by (simp add: handleUserStatusUpdated_def getUserInformationOf_def emit_def Let_def
      qinsert_def qvalue_def)

lemma getUserInformation_status:
  "getUserInformation (handleUserStatusUpdated uid st w) =
     (if uid = toString (qvalue (options w) ''my_id'')
      then (getUserInformation w)(''status'' \<mapsto> QVariantMap st)
      else getUserInformation w)"
  by (simp add: handleUserStatusUpdated_def getUserInformation_def emit_def Let_def qinsert_def)

lemma getUserInformationOf_user:
  "getUserInformationOf (handleUserUpdated u w) uid' =
     (if uid' = toString (qvalue u ''id'') then u else getUserInformationOf w uid')"
  by (simp add: handleUserUpdated_def getUserInformationOf_def emit_def Let_def
      qinsert_def qvalue_def)

lemma getUserInformationOf_statuses:
  "getUserInformationOf (fold deliverUser (map (UserStatusUpdate uid) sts) w) uid =
     (if sts = [] then getUserInformationOf w uid
      else (getUserInformationOf w uid)(''status'' \<mapsto> QVariantMap (last sts)))"
  by (induction sts arbitrary: w) (simp_all add: getUserInformationOf_status)

lemma getUserInformationOf_interleaved:
  "getUserInformationOf
     (deliverUsers (pre @ UserUpdate u # map (UserStatusUpdate (toString (qvalue u ''id''))) sts) w)
     (toString (qvalue u ''id'')) =
   (if sts = [] then u else u(''status'' \<mapsto> QVariantMap (last sts)))"
  by (simp add: deliverUsers_def getUserInformationOf_statuses getUserInformationOf_user
      del: fold_simps)

subsection \<open>Options and the own identity\<close>

text \<open>
  C1, as the code has it: every \<open>handleOptionUpdated\<close> stores the value under the name
  and emits \<open>optionUpdated\<close>; for the name \<open>my_id\<close> it emits \<open>ownUserIdFound\<close> once
  more, whatever value was stored before, and for no other name. So over a sequence of
  option updates \<open>ownUserIdFound\<close> is emitted once for each update named \<open>my_id\<close>.
\<close>

theorem handleOptionUpdated_ownUserIdFound:
  "emitted (handleOptionUpdated n v w) =
     emitted w @ optionUpdated n v # (if n = ''my_id'' then [ownUserIdFound (toString v)] else []) \<and>
   options (handleOptionUpdated n v w) = (options w)(n \<mapsto> v) \<and>
   ownUserIdFoundCount (emitted (deliverOptions upds w)) =
     ownUserIdFoundCount (emitted w) + length (filter (\<lambda>(n, v). n = ''my_id'') upds)"
proof (intro conjI)
  show "emitted (handleOptionUpdated n v w) =
     emitted w @ optionUpdated n v # (if n = ''my_id'' then [ownUserIdFound (toString v)] else [])"
    by (rule emitted_handleOptionUpdated)
  show "options (handleOptionUpdated n v w) = (options w)(n \<mapsto> v)"
    by (simp add: handleOptionUpdated_def emit_def Let_def qinsert_def)
  show "ownUserIdFoundCount (emitted (deliverOptions upds w)) =
     ownUserIdFoundCount (emitted w) + length (filter (\<lambda>(n, v). n = ''my_id'') upds)"
    by (simp add: deliverOptions_def ownUserIdFoundCount_fold)
qed

text \<open>
  The theorem at a concrete stream: \<open>my_id\<close> twice with the same value and one other
  option give two \<open>ownUserIdFound\<close>.
\<close>

theorem handleOptionUpdated_ownUserIdFound_witness:
  "ownUserIdFoundCount
     (emitted (deliverOptions
        [(''my_id'', QString ''42''), (''version'', QString ''1.6''), (''my_id'', QString ''42'')]
        (newTDLibWrapper Closed))) = 2"
  using handleOptionUpdated_ownUserIdFound
    [of "''my_id''" "QString ''42''" "newTDLibWrapper Closed"
        "[(''my_id'', QString ''42''), (''version'', QString ''1.6''), (''my_id'', QString ''42'')]"]
  by (simp add: newTDLibWrapper_def)

text \<open>
  C1 as stated fails: with \<open>my_id\<close> already stored as \<open>42\<close>, recording \<open>my_id = 42\<close>
  again emits \<open>ownUserIdFound\<close> a second time.
\<close>

theorem handleOptionUpdated_same_value_counterexample:
  "options (handleOptionUpdated ''my_id'' (QString ''42'') (newTDLibWrapper Closed)) ''my_id''
     = Some (QString ''42'') \<and>
   emitted (handleOptionUpdated ''my_id'' (QString ''42'')
             (handleOptionUpdated ''my_id'' (QString ''42'') (newTDLibWrapper Closed))) =
     [optionUpdated ''my_id'' (QString ''42''), ownUserIdFound ''42'',
      optionUpdated ''my_id'' (QString ''42''), ownUserIdFound ''42'']"
  by (simp add: handleOptionUpdated_def emit_def Let_def qinsert_def newTDLibWrapper_def)

subsection \<open>Chats\<close>

text \<open>
  C2, as the code has it: \<open>handleNewChatDiscovered\<close> stores the incoming map under the
  string of its \<open>id\<close> field, as a new record when the id is absent and in place of the
  whole old record otherwise. \<open>getChat\<close> of that id then returns exactly the incoming
  map, the other chats are untouched, and \<open>newChatDiscovered\<close> is emitted.
\<close>

theorem handleNewChatDiscovered_replaces:
  "chats (handleNewChatDiscovered info w) =
     (chats w)(toString (qvalue info ''id'') \<mapsto> QVariantMap info) \<and>
   getChat (handleNewChatDiscovered info w) (toString (qvalue info ''id'')) = info \<and>
   emitted (handleNewChatDiscovered info w) =
     emitted w @ [newChatDiscovered (toString (qvalue info ''id'')) info]"
  by (simp add: handleNewChatDiscovered_def emit_def Let_def qinsert_def getChat_def qvalue_def)

text \<open>The theorem at a chat that is already stored with a title.\<close>

theorem handleNewChatDiscovered_replaces_witness:
  "getChat (handleNewChatDiscovered [''id'' \<mapsto> QString ''1'', ''unread_count'' \<mapsto> QLongLong 3]
             (handleNewChatDiscovered [''id'' \<mapsto> QString ''1'', ''title'' \<mapsto> QString ''A'']
                (newTDLibWrapper Closed))) ''1''
   = [''id'' \<mapsto> QString ''1'', ''unread_count'' \<mapsto> QLongLong 3]"
  using handleNewChatDiscovered_replaces
    [of "[''id'' \<mapsto> QString ''1'', ''unread_count'' \<mapsto> QLongLong 3]"
        "handleNewChatDiscovered [''id'' \<mapsto> QString ''1'', ''title'' \<mapsto> QString ''A'']
           (newTDLibWrapper Closed)"]
  by (simp add: qvalue_def)

text \<open>
  C2 as stated fails: chat \<open>1\<close> is stored with a title, an update for chat \<open>1\<close> without
  a \<open>title\<close> key arrives, and the title is gone.
\<close>

theorem handleNewChatDiscovered_merge_counterexample:
  "getChat (handleNewChatDiscovered [''id'' \<mapsto> QString ''1'', ''title'' \<mapsto> QString ''A'']
              (newTDLibWrapper Closed)) ''1'' ''title'' = Some (QString ''A'') \<and>
   getChat (handleNewChatDiscovered [''id'' \<mapsto> QString ''1'']
             (handleNewChatDiscovered [''id'' \<mapsto> QString ''1'', ''title'' \<mapsto> QString ''A'']
              (newTDLibWrapper Closed))) ''1'' ''title'' = None"
  by (simp add: handleNewChatDiscovered_def emit_def Let_def qinsert_def getChat_def qvalue_def
      newTDLibWrapper_def)

text \<open>
  C9: delivering the same chat twice leaves the chat store as delivering it once does;
  the whole wrapper differs from the one after a single delivery by the second
  \<open>newChatDiscovered\<close> signal only.
\<close>

theorem handleNewChatDiscovered_idempotent:
  "chats (handleNewChatDiscovered info (handleNewChatDiscovered info w)) =
     chats (handleNewChatDiscovered info w) \<and>
   handleNewChatDiscovered info (handleNewChatDiscovered info w) =
     emit (newChatDiscovered (toString (qvalue info ''id'')) info) (handleNewChatDiscovered info w)"
  by (simp add: handleNewChatDiscovered_def emit_def qinsert_def Let_def)

text \<open>The theorem at a chat delivered twice to a wrapper that holds another chat.\<close>

theorem handleNewChatDiscovered_idempotent_witness:
  "chats (handleNewChatDiscovered [''id'' \<mapsto> QString ''1'', ''title'' \<mapsto> QString ''A'']
           (handleNewChatDiscovered [''id'' \<mapsto> QString ''1'', ''title'' \<mapsto> QString ''A'']
             (handleNewChatDiscovered [''id'' \<mapsto> QString ''2''] (newTDLibWrapper Closed)))) =
   chats (handleNewChatDiscovered [''id'' \<mapsto> QString ''1'', ''title'' \<mapsto> QString ''A'']
           (handleNewChatDiscovered [''id'' \<mapsto> QString ''2''] (newTDLibWrapper Closed)))"
  using handleNewChatDiscovered_idempotent
    [of "[''id'' \<mapsto> QString ''1'', ''title'' \<mapsto> QString ''A'']"
        "handleNewChatDiscovered [''id'' \<mapsto> QString ''2''] (newTDLibWrapper Closed)"]
  by (rule conjunct1)

subsection \<open>Users\<close>

text \<open>
  C3, as the code has it. \<open>handleUserStatusUpdated\<close> replaces the \<open>status\<close> key of
  the user's record and nothing else of it, and touches no other user; the own-user slot
  gets the same replacement when the id is the string of the stored \<open>my_id\<close> option,
  and is untouched otherwise. \<open>handleUserUpdated\<close> replaces the whole record, its
  \<open>status\<close> key included. So after any stream that ends with a full update \<open>u\<close>
  followed by status updates for the id of \<open>u\<close>, the record is \<open>u\<close> with its
  \<open>status\<close> replaced by the last of these status updates (\<open>u\<close> itself when there
  are none): status updates older than the last full update are lost.
\<close>

theorem handleUserStatusUpdated_status_only:
  "getUserInformationOf (handleUserStatusUpdated uid st w) uid' =
     (if uid' = uid then (getUserInformationOf w uid)(''status'' \<mapsto> QVariantMap st)
      else getUserInformationOf w uid') \<and>
   getUserInformation (handleUserStatusUpdated uid st w) =
     (if uid = toString (qvalue (options w) ''my_id'')
      then (getUserInformation w)(''status'' \<mapsto> QVariantMap st)
      else getUserInformation w) \<and>
   getUserInformationOf
     (deliverUsers (pre @ UserUpdate u # map (UserStatusUpdate (toString (qvalue u ''id''))) sts) w)
     (toString (qvalue u ''id'')) =
     (if sts = [] then u else u(''status'' \<mapsto> QVariantMap (last sts)))"
proof (intro conjI)
  show "getUserInformationOf (handleUserStatusUpdated uid st w) uid' =
     (if uid' = uid then (getUserInformationOf w uid)(''status'' \<mapsto> QVariantMap st)
      else getUserInformationOf w uid')"
    by (rule getUserInformationOf_status)
  show "getUserInformation (handleUserStatusUpdated uid st w) =
     (if uid = toString (qvalue (options w) ''my_id'')
      then (getUserInformation w)(''status'' \<mapsto> QVariantMap st)
      else getUserInformation w)"
    by (rule getUserInformation_status)
  show "getUserInformationOf
     (deliverUsers (pre @ UserUpdate u # map (UserStatusUpdate (toString (qvalue u ''id''))) sts) w)
     (toString (qvalue u ''id'')) =
     (if sts = [] then u else u(''status'' \<mapsto> QVariantMap (last sts)))"
    by (rule getUserInformationOf_interleaved)
qed

text \<open>
  The theorem at a stream for user \<open>7\<close>: a status update, a full update, two more
  status updates. The name comes from the full update, the status from the last update.
\<close>

theorem handleUserStatusUpdated_status_only_witness:
  "getUserInformationOf
     (deliverUsers
        [UserStatusUpdate ''7'' [''@type'' \<mapsto> QString ''userStatusRecently''],
         UserUpdate [''id'' \<mapsto> QString ''7'', ''first_name'' \<mapsto> QString ''A''],
         UserStatusUpdate ''7'' [''@type'' \<mapsto> QString ''userStatusOnline''],
         UserStatusUpdate ''7'' [''@type'' \<mapsto> QString ''userStatusOffline'']]
        (newTDLibWrapper Closed)) ''7'' =
   [''id'' \<mapsto> QString ''7'', ''first_name'' \<mapsto> QString ''A'',
    ''status'' \<mapsto> QVariantMap [''@type'' \<mapsto> QString ''userStatusOffline'']]"
  using handleUserStatusUpdated_status_only
    [of "''7''" "[''@type'' \<mapsto> QString ''userStatusOnline'']" "newTDLibWrapper Closed" "''7''"
        "[UserStatusUpdate ''7'' [''@type'' \<mapsto> QString ''userStatusRecently'']]"
        "[''id'' \<mapsto> QString ''7'', ''first_name'' \<mapsto> QString ''A'']"
        "[[''@type'' \<mapsto> QString ''userStatusOnline''],
          [''@type'' \<mapsto> QString ''userStatusOffline'']]"]
  by (simp add: qvalue_def)

text \<open>
  C3 as stated fails: a status update for user \<open>7\<close> followed by a full update for
  user \<open>7\<close> that carries no \<open>status\<close> leaves a record with no \<open>status\<close>, not
  with the status of the last status update.
\<close>

theorem handleUserUpdated_drops_status_counterexample:
  "getUserInformationOf
     (handleUserStatusUpdated ''7'' [''@type'' \<mapsto> QString ''userStatusOnline'']
        (newTDLibWrapper Closed)) ''7'' ''status''
     = Some (QVariantMap [''@type'' \<mapsto> QString ''userStatusOnline'']) \<and>
   getUserInformationOf
     (deliverUsers [UserStatusUpdate ''7'' [''@type'' \<mapsto> QString ''userStatusOnline''],
                    UserUpdate [''id'' \<mapsto> QString ''7'', ''first_name'' \<mapsto> QString ''A'']]
        (newTDLibWrapper Closed)) ''7'' ''status'' = None"
  by (simp add: deliverUsers_def getUserInformationOf_user getUserInformationOf_status qvalue_def)

text \<open>
  C4: once \<open>my_id\<close> is recorded with value \<open>v\<close>, a full update whose id has the string
  of \<open>v\<close> is what \<open>getUserInformation()\<close> returns. Recording an option never changes
  the own-user slot, so nothing is mirrored when \<open>my_id\<close> resolves; and a full update
  that arrives while its id is not the string of the stored \<open>my_id\<close> (with no \<open>my_id\<close>
  stored: while its id is not the empty string) leaves the slot as it was, also after
  \<open>my_id\<close> resolves to that id.
\<close>

theorem own_user_mirrored_after_my_id_only:
  "(toString (qvalue u ''id'') = toString v \<longrightarrow>
      getUserInformation (handleUserUpdated u (handleOptionUpdated ''my_id'' v w)) = u) \<and>
   getUserInformation (handleOptionUpdated n v w) = getUserInformation w \<and>
   (toString (qvalue u ''id'') \<noteq> toString (qvalue (options w) ''my_id'') \<longrightarrow>
      getUserInformation (handleOptionUpdated ''my_id'' v (handleUserUpdated u w)) =
        getUserInformation w)"
  by (simp add: handleUserUpdated_def handleOptionUpdated_def getUserInformation_def emit_def
      Let_def qinsert_def qvalue_def)

text \<open>
  The theorem at \<open>my_id = 42\<close>, stored as a number, and a user whose id is the string
  \<open>42\<close>: delivered after the option the user is the own user; delivered before it, to a
  wrapper with no \<open>my_id\<close>, the own-user slot stays empty.
\<close>

theorem own_user_mirrored_after_my_id_only_witness:
  "toString (qvalue [''id'' \<mapsto> QString ''42'', ''first_name'' \<mapsto> QString ''A''] ''id'')
     = toString (QLongLong 42) \<and>
   getUserInformation
     (handleUserUpdated [''id'' \<mapsto> QString ''42'', ''first_name'' \<mapsto> QString ''A'']
        (handleOptionUpdated ''my_id'' (QLongLong 42) (newTDLibWrapper Closed)))
     = [''id'' \<mapsto> QString ''42'', ''first_name'' \<mapsto> QString ''A''] \<and>
   options (newTDLibWrapper Closed) ''my_id'' = None \<and>
   getUserInformation
     (handleOptionUpdated ''my_id'' (QLongLong 42)
        (handleUserUpdated [''id'' \<mapsto> QString ''42'', ''first_name'' \<mapsto> QString ''A'']
           (newTDLibWrapper Closed)))
     = Map.empty"
proof -
  have n: "number 42 = ''42''"
    by code_simp
  have i: "toString (qvalue [''id'' \<mapsto> QString ''42'', ''first_name'' \<mapsto> QString ''A''] ''id'')
             = ''42''"
    by (simp add: qvalue_def)
  have e: "toString (qvalue (options (newTDLibWrapper Closed)) ''my_id'') = []"
    by (simp add: qvalue_def newTDLibWrapper_def)
  have s: "getUserInformation (newTDLibWrapper Closed) = Map.empty"
    by (simp add: getUserInformation_def newTDLibWrapper_def)
  show ?thesis
    using own_user_mirrored_after_my_id_only
      [of "[''id'' \<mapsto> QString ''42'', ''first_name'' \<mapsto> QString ''A'']" "QLongLong 42"
          "newTDLibWrapper Closed" "''my_id''"]
    by (simp add: n i e s) (simp add: newTDLibWrapper_def)
qed

subsection \<open>Groups\<close>

text \<open>
  C5: for every id other than 0, \<open>getGroup\<close> returns the pointer stored in
  \<open>superGroups\<close> when there is one, whatever \<open>basicGroups\<close> holds for the id, and the
  pointer stored in \<open>basicGroups\<close> when \<open>superGroups\<close> has none.
\<close>

theorem getGroup_super_first:
  assumes "gid \<noteq> 0"
  shows "(superGroups w gid = Some p \<longrightarrow> getGroup w gid = Some p) \<and>
         (superGroups w gid = None \<longrightarrow> getGroup w gid = basicGroups w gid)"
  using assms by (simp add: getGroup_def)

text \<open>
  The theorem at a wrapper that got a basic group and then a super group under id 5, and
  a basic group alone under id 6: \<open>getGroup(5)\<close> is the super group's object, the
  second one allocated, and \<open>getGroup(6)\<close> the basic group's.
\<close>

theorem getGroup_super_first_witness:
  "(case Option.bind
           (Option.bind
              (handleBasicGroupUpdated 5 [''title'' \<mapsto> QString ''basic''] (newTDLibWrapper Closed))
              (handleSuperGroupUpdated 5 [''title'' \<mapsto> QString ''super'']))
           (handleBasicGroupUpdated 6 [''title'' \<mapsto> QString ''other'']) of
      None \<Rightarrow> False
    | Some w \<Rightarrow>
        (5 :: 64 word) \<noteq> 0 \<and> basicGroups w 5 = Some 0 \<and> superGroups w 5 = Some 1 \<and>
        getGroup w 5 = Some 1 \<and>
        groupInfo (groupHeap w ! 1) ''title'' = Some (QString ''super'') \<and>
        (6 :: 64 word) \<noteq> 0 \<and> superGroups w 6 = None \<and> basicGroups w 6 = Some 2 \<and>
        getGroup w 6 = Some 2)"
proof -
  let ?w = "the (Option.bind
           (Option.bind
              (handleBasicGroupUpdated 5 [''title'' \<mapsto> QString ''basic''] (newTDLibWrapper Closed))
              (handleSuperGroupUpdated 5 [''title'' \<mapsto> QString ''super'']))
           (handleBasicGroupUpdated 6 [''title'' \<mapsto> QString ''other'']))"
  have a: "(5 :: 64 word) \<noteq> 0" and b: "(6 :: 64 word) \<noteq> 0"
    by simp_all
  show ?thesis
    using getGroup_super_first [OF a, of ?w 1] getGroup_super_first [OF b, of ?w 1]
    by (simp add: handleBasicGroupUpdated_def handleSuperGroupUpdated_def updateGroup_def
        newTDLibWrapper_def emit_def)
qed

text \<open>
  C6: for every state of the group registry, also one that has a group stored under
  id 0 in either hash, \<open>getGroup(0)\<close> returns the null pointer.
\<close>

theorem getGroup_zero_absent: "getGroup w 0 = None"
  by (simp add: getGroup_def)

text \<open>A group stored under id 0 in both hashes does not change \<open>getGroup(0)\<close>.\<close>

theorem getGroup_zero_absent_witness:
  "(case Option.bind
           (handleBasicGroupUpdated 0 [''title'' \<mapsto> QString ''basic''] (newTDLibWrapper Closed))
           (handleSuperGroupUpdated 0 [''title'' \<mapsto> QString ''super'']) of
      None \<Rightarrow> False
    | Some w \<Rightarrow> basicGroups w 0 = Some 0 \<and> superGroups w 0 = Some 1 \<and> getGroup w 0 = None)"
  using getGroup_zero_absent
    [of "the (Option.bind
           (handleBasicGroupUpdated 0 [''title'' \<mapsto> QString ''basic''] (newTDLibWrapper Closed))
           (handleSuperGroupUpdated 0 [''title'' \<mapsto> QString ''super'']))"]
  by (simp add: handleBasicGroupUpdated_def handleSuperGroupUpdated_def updateGroup_def
      newTDLibWrapper_def emit_def)

text \<open>
  C7: \<open>chatMemberStatus\<close> is \<open>Unknown\<close> for a group whose metadata has no \<open>status\<close>
  key, and for one whose \<open>status.@type\<close> has a string outside the six recognised ones;
  each of the six gives its own value.
\<close>

theorem chatMemberStatus_table:
  "(groupInfo g ''status'' = None \<longrightarrow> chatMemberStatus g = ChatMemberStatusUnknown) \<and>
   (statusType g \<notin> {''chatMemberStatusMember'', ''chatMemberStatusLeft'',
        ''chatMemberStatusCreator'', ''chatMemberStatusAdministrator'',
        ''chatMemberStatusRestricted'', ''chatMemberStatusBanned''}
      \<longrightarrow> chatMemberStatus g = ChatMemberStatusUnknown) \<and>
   (statusType g = ''chatMemberStatusMember'' \<longrightarrow> chatMemberStatus g = ChatMemberStatusMember) \<and>
   (statusType g = ''chatMemberStatusLeft'' \<longrightarrow> chatMemberStatus g = ChatMemberStatusLeft) \<and>
   (statusType g = ''chatMemberStatusCreator'' \<longrightarrow> chatMemberStatus g = ChatMemberStatusCreator) \<and>
   (statusType g = ''chatMemberStatusAdministrator''
      \<longrightarrow> chatMemberStatus g = ChatMemberStatusAdministrator) \<and>
   (statusType g = ''chatMemberStatusRestricted''
      \<longrightarrow> chatMemberStatus g = ChatMemberStatusRestricted) \<and>
   (statusType g = ''chatMemberStatusBanned'' \<longrightarrow> chatMemberStatus g = ChatMemberStatusBanned)"
  by (simp add: chatMemberStatus_def chatMemberStatusFromString_def statusType_def qvalue_def)

text \<open>
  The theorem at a group with no \<open>status\<close>, at one with the unrecognised type
  \<open>chatMemberStatusFrobnicated\<close>, and at one group for each recognised type.
\<close>

theorem chatMemberStatus_table_witness:
  "groupInfo \<lparr>groupId = 1, groupInfo = [''title'' \<mapsto> QString ''G'']\<rparr> ''status'' = None \<and>
   chatMemberStatus \<lparr>groupId = 1, groupInfo = [''title'' \<mapsto> QString ''G'']\<rparr>
     = ChatMemberStatusUnknown \<and>
   chatMemberStatus \<lparr>groupId = 1, groupInfo =
       [''status'' \<mapsto> QVariantMap [''@type'' \<mapsto> QString ''chatMemberStatusFrobnicated'']]\<rparr>
     = ChatMemberStatusUnknown \<and>
   chatMemberStatus \<lparr>groupId = 1, groupInfo =
       [''status'' \<mapsto> QVariantMap [''@type'' \<mapsto> QString ''chatMemberStatusMember'']]\<rparr>
     = ChatMemberStatusMember \<and>
   chatMemberStatus \<lparr>groupId = 1, groupInfo =
       [''status'' \<mapsto> QVariantMap [''@type'' \<mapsto> QString ''chatMemberStatusLeft'']]\<rparr>
     = ChatMemberStatusLeft \<and>
   chatMemberStatus \<lparr>groupId = 1, groupInfo =
       [''status'' \<mapsto> QVariantMap [''@type'' \<mapsto> QString ''chatMemberStatusCreator'']]\<rparr>
     = ChatMemberStatusCreator \<and>
   chatMemberStatus \<lparr>groupId = 1, groupInfo =
       [''status'' \<mapsto> QVariantMap [''@type'' \<mapsto> QString ''chatMemberStatusAdministrator'']]\<rparr>
     = ChatMemberStatusAdministrator \<and>
   chatMemberStatus \<lparr>groupId = 1, groupInfo =
       [''status'' \<mapsto> QVariantMap [''@type'' \<mapsto> QString ''chatMemberStatusRestricted'']]\<rparr>
     = ChatMemberStatusRestricted \<and>
   chatMemberStatus \<lparr>groupId = 1, groupInfo =
       [''status'' \<mapsto> QVariantMap [''@type'' \<mapsto> QString ''chatMemberStatusBanned'']]\<rparr>
     = ChatMemberStatusBanned"
  using
    chatMemberStatus_table [of "\<lparr>groupId = 1, groupInfo = [''title'' \<mapsto> QString ''G'']\<rparr>"]
    chatMemberStatus_table [of "\<lparr>groupId = 1, groupInfo =
       [''status'' \<mapsto> QVariantMap [''@type'' \<mapsto> QString ''chatMemberStatusFrobnicated'']]\<rparr>"]
    chatMemberStatus_table [of "\<lparr>groupId = 1, groupInfo =
       [''status'' \<mapsto> QVariantMap [''@type'' \<mapsto> QString ''chatMemberStatusMember'']]\<rparr>"]
    chatMemberStatus_table [of "\<lparr>groupId = 1, groupInfo =
       [''status'' \<mapsto> QVariantMap [''@type'' \<mapsto> QString ''chatMemberStatusLeft'']]\<rparr>"]
    chatMemberStatus_table [of "\<lparr>groupId = 1, groupInfo =
       [''status'' \<mapsto> QVariantMap [''@type'' \<mapsto> QString ''chatMemberStatusCreator'']]\<rparr>"]
    chatMemberStatus_table [of "\<lparr>groupId = 1, groupInfo =
       [''status'' \<mapsto> QVariantMap [''@type'' \<mapsto> QString ''chatMemberStatusAdministrator'']]\<rparr>"]
    chatMemberStatus_table [of "\<lparr>groupId = 1, groupInfo =
       [''status'' \<mapsto> QVariantMap [''@type'' \<mapsto> QString ''chatMemberStatusRestricted'']]\<rparr>"]
    chatMemberStatus_table [of "\<lparr>groupId = 1, groupInfo =
       [''status'' \<mapsto> QVariantMap [''@type'' \<mapsto> QString ''chatMemberStatusBanned'']]\<rparr>"]
  by (simp add: statusType_def qvalue_def)

subsection \<open>Unread counters\<close>

text \<open>
  C8: an unread-message-count or unread-chat-count update whose \<open>chat_list_type\<close> is
  not \<open>chatListMain\<close> leaves the whole wrapper as it was, so both snapshots keep their
  values and no signal is emitted. With \<open>chatListMain\<close> the update becomes the
  matching snapshot as a whole, the other snapshot is untouched, and the matching signal
  is emitted.
\<close>

theorem unread_count_updates_main_only:
  "(toString (qvalue info ''chat_list_type'') \<noteq> ''chatListMain'' \<longrightarrow>
      handleUnreadMessageCountUpdated info w = w \<and> handleUnreadChatCountUpdated info w = w) \<and>
   (toString (qvalue info ''chat_list_type'') = ''chatListMain'' \<longrightarrow>
      handleUnreadMessageCountUpdated info w =
        emit (unreadMessageCountUpdated info) (w\<lparr>unreadMessageInformation := info\<rparr>) \<and>
      getUnreadMessageInformation (handleUnreadMessageCountUpdated info w) = info \<and>
      getUnreadChatInformation (handleUnreadMessageCountUpdated info w) =
        getUnreadChatInformation w \<and>
      handleUnreadChatCountUpdated info w =
        emit (unreadChatCountUpdated info) (w\<lparr>unreadChatInformation := info\<rparr>) \<and>
      getUnreadChatInformation (handleUnreadChatCountUpdated info w) = info \<and>
      getUnreadMessageInformation (handleUnreadChatCountUpdated info w) =
        getUnreadMessageInformation w)"
  by (simp add: handleUnreadMessageCountUpdated_def handleUnreadChatCountUpdated_def
      getUnreadMessageInformation_def getUnreadChatInformation_def emit_def)

text \<open>
  The theorem at an update for the archive list and at one for the main list, on a
  wrapper that already holds a snapshot of the main list.
\<close>

theorem unread_count_updates_main_only_witness:
  "toString (qvalue [''chat_list_type'' \<mapsto> QString ''chatListArchive'',
                     ''unread_count'' \<mapsto> QLongLong 9] ''chat_list_type'') \<noteq> ''chatListMain'' \<and>
   getUnreadMessageInformation
     (handleUnreadMessageCountUpdated
        [''chat_list_type'' \<mapsto> QString ''chatListArchive'', ''unread_count'' \<mapsto> QLongLong 9]
        (handleUnreadMessageCountUpdated
           [''chat_list_type'' \<mapsto> QString ''chatListMain'', ''unread_count'' \<mapsto> QLongLong 2]
           (newTDLibWrapper Closed)))
     = [''chat_list_type'' \<mapsto> QString ''chatListMain'', ''unread_count'' \<mapsto> QLongLong 2] \<and>
   emitted
     (handleUnreadMessageCountUpdated
        [''chat_list_type'' \<mapsto> QString ''chatListArchive'', ''unread_count'' \<mapsto> QLongLong 9]
        (handleUnreadMessageCountUpdated
           [''chat_list_type'' \<mapsto> QString ''chatListMain'', ''unread_count'' \<mapsto> QLongLong 2]
           (newTDLibWrapper Closed)))
     = [unreadMessageCountUpdated
          [''chat_list_type'' \<mapsto> QString ''chatListMain'', ''unread_count'' \<mapsto> QLongLong 2]]"
proof -
  let ?main = "[''chat_list_type'' \<mapsto> QString ''chatListMain'', ''unread_count'' \<mapsto> QLongLong 2]"
  let ?archive =
    "[''chat_list_type'' \<mapsto> QString ''chatListArchive'', ''unread_count'' \<mapsto> QLongLong 9]"
  have m: "toString (qvalue ?main ''chat_list_type'') = ''chatListMain''"
    by (simp add: qvalue_def)
  have a: "toString (qvalue ?archive ''chat_list_type'') \<noteq> ''chatListMain''"
    by (simp add: qvalue_def)
  have s1: "handleUnreadMessageCountUpdated ?main (newTDLibWrapper Closed) =
      emit (unreadMessageCountUpdated ?main)
        ((newTDLibWrapper Closed)\<lparr>unreadMessageInformation := ?main\<rparr>)"
    using unread_count_updates_main_only [of ?main "newTDLibWrapper Closed"] m by blast
  let ?w = "emit (unreadMessageCountUpdated ?main)
        ((newTDLibWrapper Closed)\<lparr>unreadMessageInformation := ?main\<rparr>)"
  have s2: "handleUnreadMessageCountUpdated ?archive ?w = ?w"
    using unread_count_updates_main_only [of ?archive ?w] a by blast
  show ?thesis
    unfolding s1 s2
    by (simp add: qvalue_def getUnreadMessageInformation_def emit_def newTDLibWrapper_def)
qed

subsection \<open>Authorization state\<close>

text \<open>
  C10: an authorization state string that is none of the eleven recognised ones leaves
  the stored state (and everything else) as it was and sends nothing; still
  \<open>authorizationStateChanged\<close> is emitted, with the stored, unchanged state.
\<close>

theorem handleAuthorizationStateChanged_unrecognised:
  assumes "a \<notin> {''authorizationStateClosed'', ''authorizationStateClosing'',
      ''authorizationStateLoggingOut'', ''authorizationStateReady'',
      ''authorizationStateWaitCode'', ''authorizationStateWaitEncryptionKey'',
      ''authorizationStateWaitOtherDeviceConfirmation'', ''authorizationStateWaitPassword'',
      ''authorizationStateWaitPhoneNumber'', ''authorizationStateWaitRegistration'',
      ''authorizationStateWaitTdlibParameters''}"
  shows "handleAuthorizationStateChanged env a w =
           emit (authorizationStateChanged (authorizationState w)) w \<and>
         authorizationState (handleAuthorizationStateChanged env a w) = authorizationState w \<and>
         emitted (handleAuthorizationStateChanged env a w) =
           emitted w @ [authorizationStateChanged (authorizationState w)] \<and>
         sent (handleAuthorizationStateChanged env a w) = sent w"
  using assms by (simp add: handleAuthorizationStateChanged_def emit_def)

text \<open>The theorem at the string \<open>authorizationStateFrobnicated\<close>, in state \<open>WaitCode\<close>.\<close>

theorem handleAuthorizationStateChanged_unrecognised_witness:
  "authorizationState
     (handleAuthorizationStateChanged
        \<lparr>TDLIB_API_ID = QLongLong 1, TDLIB_API_HASH = QString ''h'', appDataLocation = ''/data'',
         systemLocaleName = ''en_GB'', deviceModel = ''Phone'', prettyProductName = ''OS''\<rparr>
        ''authorizationStateFrobnicated'' (newTDLibWrapper WaitCode)) = WaitCode \<and>
   emitted
     (handleAuthorizationStateChanged
        \<lparr>TDLIB_API_ID = QLongLong 1, TDLIB_API_HASH = QString ''h'', appDataLocation = ''/data'',
         systemLocaleName = ''en_GB'', deviceModel = ''Phone'', prettyProductName = ''OS''\<rparr>
        ''authorizationStateFrobnicated'' (newTDLibWrapper WaitCode))
     = [authorizationStateChanged WaitCode]"
proof -
  have a: "''authorizationStateFrobnicated'' \<notin> {''authorizationStateClosed'',
      ''authorizationStateClosing'',
      ''authorizationStateLoggingOut'', ''authorizationStateReady'',
      ''authorizationStateWaitCode'', ''authorizationStateWaitEncryptionKey'',
      ''authorizationStateWaitOtherDeviceConfirmation'', ''authorizationStateWaitPassword'',
      ''authorizationStateWaitPhoneNumber'', ''authorizationStateWaitRegistration'',
      ''authorizationStateWaitTdlibParameters''}"
    by simp
  show ?thesis
    using handleAuthorizationStateChanged_unrecognised [OF a, of
        "\<lparr>TDLIB_API_ID = QLongLong 1, TDLIB_API_HASH = QString ''h'', appDataLocation = ''/data'',
         systemLocaleName = ''en_GB'', deviceModel = ''Phone'', prettyProductName = ''OS''\<rparr>"
        "newTDLibWrapper WaitCode"]
    by (simp add: newTDLibWrapper_def emit_def)
qed

end
